theory Spec2Isabelle
  imports Main "HOL-Library.Word"
begin

unbundle bit_operations_syntax

section \<open>Data model of SkColorSpaceXformer.cpp\<close>

text \<open>
  \<open>SkColor\<close> is a packed 32-bit ARGB value. \<open>SkScalar\<close> is a 32-bit float; the
  code under study only copies scalars, so a scalar is kept as its bit pattern. Images,
  bitmaps and draw loopers are heap objects that the code only passes on: each is its
  address. A nullable smart pointer \<open>sk_sp<T>\<close> is a \<open>T option\<close>.
\<close>

type_synonym SkColor = "32 word"
type_synonym SkScalar = "32 word"
type_synonym SkMatrix = "SkScalar list"
type_synonym SkImage = nat
type_synonym SkBitmap = nat
type_synonym SkDrawLooper = nat
type_synonym SkBlendMode = nat

datatype SkColorSpace = SRGB | ColorSpaceId nat

datatype SkTransferFunctionBehavior = kRespect | kIgnore

datatype SkCopyPixelsMode = kIfMutable_SkCopyPixelsMode | kAlways_SkCopyPixelsMode
  | kNever_SkCopyPixelsMode

datatype TileMode = kClamp_TileMode | kRepeat_TileMode | kMirror_TileMode

datatype GradientType = kNone_GradientType | kColor_GradientType | kLinear_GradientType
  | kRadial_GradientType | kSweep_GradientType | kConical_GradientType

record SkPoint =
  fX :: SkScalar
  fY :: SkScalar

text \<open>
  \<open>SkShader::GradientInfo\<close> as the second \<open>asAGradient\<close> call leaves it: the
  caller's two arrays hold what the shader wrote into them.
\<close>

record GradientInfo =
  fColorCount :: nat
  fColors :: "SkColor list"
  fColorOffsets :: "SkScalar list"
  fPoint :: "SkPoint \<times> SkPoint"
  fRadius :: "SkScalar \<times> SkScalar"
  fTileMode :: TileMode
  fGradientFlags :: "32 word"

text \<open>
  A shader is an object behind virtual introspection methods. The model keeps, for a
  shader, its address and the answer it gives to each query that \<open>apply\<close> asks:
  \<open>isConstant\<close>, \<open>asLuminanceColor\<close> (the colour when it answers true),
  \<open>isAImage\<close> (image, local matrix and the two tile modes when it answers non-null),
  \<open>asAGradient\<close> (the gradient type and the filled-in info), \<open>getLocalMatrix\<close>, and
  \<open>asACompose\<close> (the two children and the blend mode when it answers true). Nothing
  stops a shader from answering yes to several queries.
\<close>

record ShaderAnswers =
  shaderAddr :: nat
  isConstant :: bool
  asLuminanceColor :: "SkColor option"
  isAImage :: "(SkImage \<times> SkMatrix \<times> TileMode \<times> TileMode) option"
  asAGradient :: GradientType
  gradientInfo :: GradientInfo
  getLocalMatrix :: SkMatrix

datatype SkShader =
  SkShader (answers: ShaderAnswers) (asACompose: "(SkShader \<times> SkShader \<times> SkBlendMode) option")

datatype SkColorFilter =
  SkColorFilter (filterAddr: nat) (asColorMode: "(SkColor \<times> SkBlendMode) option")

record SkPaint =
  fColor :: SkColor
  fShader :: "SkShader option"
  fColorFilter :: "SkColorFilter option"
  fDrawLooper :: "SkDrawLooper option"
  fImageFilter :: "nat option"

text \<open>
  How a call ends: it returns a value, or the program stops, at a null smart pointer
  that is dereferenced, at a failed assertion, or at a read past the end of an array.
\<close>

datatype fault = NullDereference | AssertionFailed | BadRead

datatype 'a outcome = Returned 'a | Halted fault

definition obind :: "'a outcome \<Rightarrow> ('a \<Rightarrow> 'b outcome) \<Rightarrow> 'b outcome" where
  "obind r k = (case r of Halted f \<Rightarrow> Halted f | Returned v \<Rightarrow> k v)"

text \<open>\<open>p->m(...)\<close> on a smart pointer \<open>p\<close>: the member is called on the object when
  \<open>p\<close> is non-null.\<close>

definition arrow :: "'a option \<Rightarrow> ('a \<Rightarrow> 'b) \<Rightarrow> 'b outcome" where
  "arrow p m = (case p of None \<Rightarrow> Halted NullDereference | Some obj \<Rightarrow> Returned (m obj))"

text \<open>Modelled from the spec: \<open>SkASSERT\<close> (SkTypes.h is not among the sources) is a fatal
  assertion: the program halts when the condition is false.\<close>

definition SkASSERT :: "bool \<Rightarrow> unit outcome" where
  "SkASSERT cond = (if cond then Returned () else Halted AssertionFailed)"

text \<open>Modelled from the spec: \<open>SkAssertResult\<close> evaluates its argument and asserts that it
  is true, as a fatal assertion.\<close>

definition SkAssertResult :: "bool \<Rightarrow> unit outcome" where
  "SkAssertResult cond = SkASSERT cond"

section \<open>The converter and its collaborators\<close>

text \<open>Modelled from the spec: \<open>SkColorSpaceXform\<close> (its class is not among the sources) is
  the bound source-to-destination transform, given by what it does to one unpremultiplied
  BGRA pixel.\<close>

datatype SkColorSpaceXform = SkColorSpaceXform (pixel: "SkColor \<Rightarrow> SkColor")

text \<open>Modelled from the spec: \<open>SkColorSpaceXform::apply\<close> converts \<open>n\<close> pixels, each by the
  same per-pixel function and independently of the others, and reports success.\<close>

definition xform_apply :: "SkColorSpaceXform \<Rightarrow> SkColor list \<Rightarrow> nat \<Rightarrow> bool \<times> SkColor list" where
  "xform_apply T src n = (True, map (pixel T) (take n src))"

record SkColorSpaceXformer =
  fDst :: "SkColorSpace option"
  fFromSRGB :: SkColorSpaceXform

text \<open>
  The functions that \<open>SkColorSpaceXformer.cpp\<close> calls and does not define are
  parameters of the model, under their own names. Each one that returns a smart pointer
  may return null.
\<close>

record Collaborators =
  New :: "SkColorSpace option \<Rightarrow> SkColorSpace option \<Rightarrow> SkTransferFunctionBehavior
    \<Rightarrow> SkColorSpaceXform option"
  SkMakeImageFromRasterBitmap :: "SkBitmap \<Rightarrow> SkCopyPixelsMode \<Rightarrow> SkImage option"
  makeColorSpace :: "SkImage \<Rightarrow> SkColorSpace option \<Rightarrow> SkImage option"
  makeShader :: "SkImage \<Rightarrow> TileMode \<Rightarrow> TileMode \<Rightarrow> SkMatrix \<Rightarrow> SkShader option"
  MakeColorShader :: "SkColor \<Rightarrow> SkShader option"
  makeWithLocalMatrix :: "SkShader \<Rightarrow> SkMatrix \<Rightarrow> SkShader option"
  MakeComposeShader :: "SkShader \<Rightarrow> SkShader \<Rightarrow> SkBlendMode \<Rightarrow> SkShader option"
  MakeLinear :: "SkPoint \<times> SkPoint \<Rightarrow> SkColor list \<Rightarrow> SkScalar list \<Rightarrow> nat
    \<Rightarrow> TileMode \<Rightarrow> 32 word \<Rightarrow> SkMatrix \<Rightarrow> SkShader option"
  MakeRadial :: "SkPoint \<Rightarrow> SkScalar \<Rightarrow> SkColor list \<Rightarrow> SkScalar list \<Rightarrow> nat
    \<Rightarrow> TileMode \<Rightarrow> 32 word \<Rightarrow> SkMatrix \<Rightarrow> SkShader option"
  MakeSweep :: "SkScalar \<Rightarrow> SkScalar \<Rightarrow> SkColor list \<Rightarrow> SkScalar list \<Rightarrow> nat
    \<Rightarrow> 32 word \<Rightarrow> SkMatrix \<Rightarrow> SkShader option"
  MakeTwoPointConical :: "SkPoint \<Rightarrow> SkScalar \<Rightarrow> SkPoint \<Rightarrow> SkScalar \<Rightarrow> SkColor list
    \<Rightarrow> SkScalar list \<Rightarrow> nat \<Rightarrow> TileMode \<Rightarrow> 32 word \<Rightarrow> SkMatrix \<Rightarrow> SkShader option"
  MakeModeFilter :: "SkColor \<Rightarrow> SkBlendMode \<Rightarrow> SkColorFilter option"
  looperMakeColorSpace :: "SkDrawLooper \<Rightarrow> SkColorSpaceXformer \<Rightarrow> SkDrawLooper option"

subsection \<open>\<open>SkColorSpaceXformer::Make\<close>\<close>

definition Make :: "Collaborators \<Rightarrow> SkColorSpace option \<Rightarrow> SkColorSpaceXformer option" where
  "Make E dst =
     (case New E (Some SRGB) dst kIgnore of
        None \<Rightarrow> None
      | Some fromSRGB \<Rightarrow> Some \<lparr>fDst = dst, fFromSRGB = fromSRGB\<rparr>)"

subsection \<open>\<open>apply\<close> on images and bitmaps\<close>

definition apply_image :: "Collaborators \<Rightarrow> SkColorSpaceXformer \<Rightarrow> SkImage \<Rightarrow> SkImage option" where
  "apply_image E X src = makeColorSpace E src (fDst X)"

definition apply_bitmap ::
  "Collaborators \<Rightarrow> SkColorSpaceXformer \<Rightarrow> SkBitmap \<Rightarrow> SkImage option outcome" where
  "apply_bitmap E X src =
     (case SkMakeImageFromRasterBitmap E src kNever_SkCopyPixelsMode of
        None \<Rightarrow> Returned None
      | Some image' \<Rightarrow>
          (let xformed = makeColorSpace E image' (fDst X) in
           obind (SkASSERT (xformed \<noteq> Some image')) (\<lambda>_. Returned xformed)))"

subsection \<open>\<open>apply\<close> on colours\<close>

text \<open>
  The batch form reads \<open>n\<close> colours from the source array; a read of more colours than
  the array holds is a fault. The scalar form is the batch form on one colour.
\<close>

definition apply_colors :: "SkColorSpaceXformer \<Rightarrow> SkColor list \<Rightarrow> nat \<Rightarrow> SkColor list outcome" where
  "apply_colors X srgb n =
     (if length srgb < n then Halted BadRead
      else (case xform_apply (fFromSRGB X) srgb n of
              (ok, xformed) \<Rightarrow> obind (SkAssertResult ok) (\<lambda>_. Returned xformed)))"

definition apply_color :: "SkColorSpaceXformer \<Rightarrow> SkColor \<Rightarrow> SkColor outcome" where
  "apply_color X srgb =
     obind (apply_colors X [srgb] 1)
       (\<lambda>xformed. case xformed of [] \<Rightarrow> Halted BadRead | c # _ \<Rightarrow> Returned c)"

subsection \<open>\<open>apply\<close> on shaders\<close>

text \<open>
  The \<open>switch\<close> on the gradient type, lines 95 to 137. A \<open>break\<close> leaves it for the
  last line of the function, which returns the shader itself.
\<close>

definition gradient_switch ::
  "Collaborators \<Rightarrow> SkShader \<Rightarrow> GradientType \<Rightarrow> GradientInfo \<Rightarrow> SkColor list
     \<Rightarrow> SkShader option outcome" where
  "gradient_switch E shader type gradient xformed =
     (case type of
        kNone_GradientType \<Rightarrow> obind (SkASSERT False) (\<lambda>_. Returned (Some shader))
      | kColor_GradientType \<Rightarrow> obind (SkASSERT False) (\<lambda>_. Returned (Some shader))
      | kLinear_GradientType \<Rightarrow>
          Returned (MakeLinear E (fPoint gradient) xformed (fColorOffsets gradient)
            (fColorCount gradient) (fTileMode gradient) (fGradientFlags gradient)
            (getLocalMatrix (answers shader)))
      | kRadial_GradientType \<Rightarrow>
          Returned (MakeRadial E (fst (fPoint gradient)) (fst (fRadius gradient)) xformed
            (fColorOffsets gradient) (fColorCount gradient) (fTileMode gradient)
            (fGradientFlags gradient) (getLocalMatrix (answers shader)))
      | kSweep_GradientType \<Rightarrow>
          Returned (MakeSweep E (fX (fst (fPoint gradient))) (fY (fst (fPoint gradient)))
            xformed (fColorOffsets gradient) (fColorCount gradient)
            (fGradientFlags gradient) (getLocalMatrix (answers shader)))
      | kConical_GradientType \<Rightarrow>
          Returned (MakeTwoPointConical E (fst (fPoint gradient)) (fst (fRadius gradient))
            (snd (fPoint gradient)) (snd (fRadius gradient)) xformed (fColorOffsets gradient)
            (fColorCount gradient) (fTileMode gradient) (fGradientFlags gradient)
            (getLocalMatrix (answers shader))))"

text \<open>
  Lines 82 to 140: the gradient query, and the return of the shader itself when the
  query answers \<open>kNone_GradientType\<close>, the zero of the enumeration.
\<close>

definition gradient_or_self ::
  "Collaborators \<Rightarrow> SkColorSpaceXformer \<Rightarrow> SkShader \<Rightarrow> SkShader option outcome" where
  "gradient_or_self E X shader =
     (let type = asAGradient (answers shader); gradient = gradientInfo (answers shader) in
      if type \<noteq> kNone_GradientType then
        obind (apply_colors X (fColors gradient) (fColorCount gradient))
          (\<lambda>xformed. gradient_switch E shader type gradient xformed)
      else Returned (Some shader))"

fun apply_shader ::
  "Collaborators \<Rightarrow> SkColorSpaceXformer \<Rightarrow> SkShader \<Rightarrow> SkShader option outcome" where
  "apply_shader E X (SkShader a compose) =
     (case (if isConstant a then asLuminanceColor a else None) of
        Some color \<Rightarrow>
          obind (apply_color X color)
            (\<lambda>c. arrow (MakeColorShader E c) (\<lambda>s. makeWithLocalMatrix E s (getLocalMatrix a)))
      | None \<Rightarrow>
          (case isAImage a of
             Some (img, local, tx, ty) \<Rightarrow>
               arrow (apply_image E X img) (\<lambda>im. makeShader E im tx ty local)
           | None \<Rightarrow>
               (case compose of
                  None \<Rightarrow> gradient_or_self E X (SkShader a compose)
                | Some (shaderA, shaderB, blendMode) \<Rightarrow>
                    (case apply_shader E X shaderA of
                       Halted f \<Rightarrow> Halted f
                     | Returned A \<Rightarrow>
                         (case apply_shader E X shaderB of
                            Halted f \<Rightarrow> Halted f
                          | Returned B \<Rightarrow>
                              (case (A, B) of
                                 (Some sa, Some sb) \<Rightarrow>
                                   arrow (MakeComposeShader E sa sb blendMode)
                                     (\<lambda>s. makeWithLocalMatrix E s (getLocalMatrix a))
                               | _ \<Rightarrow> gradient_or_self E X (SkShader a compose)))))))"

subsection \<open>\<open>apply\<close> on paints\<close>

definition apply_paint :: "Collaborators \<Rightarrow> SkColorSpaceXformer \<Rightarrow> SkPaint \<Rightarrow> SkPaint outcome" where
  "apply_paint E X src =
     obind (if fColor src AND 0xffffff \<noteq> 0
            then obind (apply_color X (fColor src)) (\<lambda>c. Returned (src\<lparr>fColor := c\<rparr>))
            else Returned src)
       (\<lambda>dst1.
     obind (case fShader src of
              None \<Rightarrow> Returned dst1
            | Some shader \<Rightarrow>
                obind (apply_shader E X shader) (\<lambda>s. Returned (dst1\<lparr>fShader := s\<rparr>)))
       (\<lambda>dst2.
     obind (case fColorFilter src of
              None \<Rightarrow> Returned dst2
            | Some cf \<Rightarrow>
                (case asColorMode cf of
                   None \<Rightarrow> Returned dst2
                 | Some (color, mode) \<Rightarrow>
                     obind (apply_color X color)
                       (\<lambda>c. Returned (dst2\<lparr>fColorFilter := MakeModeFilter E c mode\<rparr>))))
       (\<lambda>dst3.
     Returned (case fDrawLooper src of
                 None \<Rightarrow> dst3
               | Some looper \<Rightarrow> dst3\<lparr>fDrawLooper := looperMakeColorSpace E looper X\<rparr>))))"

subsection \<open>The contract of the gradient query\<close>

text \<open>
  The gradient branch takes for granted that a shader reporting \<open>kColor_GradientType\<close>
  is a constant colour, which the first branch has then already returned. A shader
  honours this contract when it and the shaders it composes do.
\<close>

fun honours_contract :: "SkShader \<Rightarrow> bool" where
  "honours_contract (SkShader a compose) =
     ((asAGradient a = kColor_GradientType \<longrightarrow> isConstant a \<and> asLuminanceColor a \<noteq> None) \<and>
      (case compose of
         None \<Rightarrow> True
       | Some (shaderA, shaderB, blendMode) \<Rightarrow> honours_contract shaderA \<and> honours_contract shaderB))"

section \<open>Test doubles for the collaborators\<close>

text \<open>
  Concrete collaborators on which the theorems below are exercised. The transform flips
  the lowest bit of every colour, so that a converted colour shows. Image 66 cannot be
  retargeted, image 77 is already in the destination space and is returned as it is, and
  no shader can be made from image 113. Every builder returns a node that answers the
  queries with what it was built from.
\<close>

definition noGradient :: GradientInfo where
  "noGradient = \<lparr>fColorCount = 0, fColors = [], fColorOffsets = [],
     fPoint = (\<lparr>fX = 0, fY = 0\<rparr>, \<lparr>fX = 0, fY = 0\<rparr>), fRadius = (0, 0),
     fTileMode = kClamp_TileMode, fGradientFlags = 0\<rparr>"

definition opaqueAnswers :: "nat \<Rightarrow> ShaderAnswers" where
  "opaqueAnswers p = \<lparr>shaderAddr = p, isConstant = False, asLuminanceColor = None,
     isAImage = None, asAGradient = kNone_GradientType, gradientInfo = noGradient,
     getLocalMatrix = []\<rparr>"

definition builtGradient ::
  "GradientType \<Rightarrow> SkPoint \<times> SkPoint \<Rightarrow> SkScalar \<times> SkScalar \<Rightarrow> SkColor list \<Rightarrow> SkScalar list
     \<Rightarrow> nat \<Rightarrow> TileMode \<Rightarrow> 32 word \<Rightarrow> SkMatrix \<Rightarrow> SkShader option" where
  "builtGradient type pts radii colors pos n tileMode flags localMatrix =
     Some (SkShader ((opaqueAnswers 500)
       \<lparr>asAGradient := type,
        gradientInfo := \<lparr>fColorCount = n, fColors = colors, fColorOffsets = pos, fPoint = pts,
          fRadius = radii, fTileMode = tileMode, fGradientFlags = flags\<rparr>,
        getLocalMatrix := localMatrix\<rparr>) None)"

definition X0 :: SkColorSpaceXformer where
  "X0 = \<lparr>fDst = Some (ColorSpaceId 1), fFromSRGB = SkColorSpaceXform (\<lambda>c. c XOR 1)\<rparr>"

definition E0 :: Collaborators where
  "E0 = \<lparr>
     New = (\<lambda>src dst behavior.
       case dst of None \<Rightarrow> None | Some _ \<Rightarrow> Some (SkColorSpaceXform (\<lambda>c. c XOR 1))),
     SkMakeImageFromRasterBitmap = (\<lambda>bitmap mode. if bitmap = 0 then None else Some (bitmap + 10)),
     makeColorSpace = (\<lambda>img dst. if img = 66 then None else if img = 77 then Some img
       else Some (img + 100)),
     makeShader = (\<lambda>img tx ty localMatrix. if img = 113 then None
       else Some (SkShader ((opaqueAnswers 200)\<lparr>isAImage := Some (img, localMatrix, tx, ty)\<rparr>) None)),
     MakeColorShader = (\<lambda>c. Some (SkShader ((opaqueAnswers 300)
       \<lparr>isConstant := True, asLuminanceColor := Some c, asAGradient := kColor_GradientType\<rparr>) None)),
     makeWithLocalMatrix = (\<lambda>s localMatrix.
       Some (SkShader ((answers s)\<lparr>getLocalMatrix := localMatrix\<rparr>) (asACompose s))),
     MakeComposeShader = (\<lambda>a b mode. Some (SkShader (opaqueAnswers 400) (Some (a, b, mode)))),
     MakeLinear = (\<lambda>pts. builtGradient kLinear_GradientType pts (0, 0)),
     MakeRadial = (\<lambda>center radius.
       builtGradient kRadial_GradientType (center, \<lparr>fX = 0, fY = 0\<rparr>) (radius, 0)),
     MakeSweep = (\<lambda>cx cy colors pos n.
       builtGradient kSweep_GradientType (\<lparr>fX = cx, fY = cy\<rparr>, \<lparr>fX = 0, fY = 0\<rparr>) (0, 0)
         colors pos n kClamp_TileMode),
     MakeTwoPointConical = (\<lambda>start startRadius end' endRadius.
       builtGradient kConical_GradientType (start, end') (startRadius, endRadius)),
     MakeModeFilter = (\<lambda>c mode. Some (SkColorFilter 600 (Some (c, mode)))),
     looperMakeColorSpace = (\<lambda>looper X. Some (looper + 1000))\<rparr>"

text \<open>
  Shaders and paints on which the theorems are exercised. The scalars are the bit
  patterns of the floats 0.0, 0.3 and 1.0; the colours are red, green, blue and black.
\<close>

definition opaque0 :: SkShader where
  "opaque0 = SkShader (opaqueAnswers 9) None"

definition flatBlack :: SkShader where
  "flatBlack = SkShader ((opaqueAnswers 10)
     \<lparr>isConstant := True, asLuminanceColor := Some 0xFF000000,
      asAGradient := kColor_GradientType\<rparr>) None"

definition imageShader :: "nat \<Rightarrow> SkImage \<Rightarrow> SkShader" where
  "imageShader p img = SkShader ((opaqueAnswers p)
     \<lparr>isAImage := Some (img, [], kRepeat_TileMode, kMirror_TileMode)\<rparr>) None"

definition compose0 :: SkShader where
  "compose0 = SkShader (opaqueAnswers 20) (Some (imageShader 21 5, imageShader 22 13, 3))"

definition stops4 :: GradientInfo where
  "stops4 = \<lparr>fColorCount = 4,
     fColors = [0xFFFF0000, 0xFF00FF00, 0xFF00FF00, 0xFF0000FF],
     fColorOffsets = [0, 0x3E99999A, 0x3E99999A, 0x3F800000],
     fPoint = (\<lparr>fX = 0, fY = 0\<rparr>, \<lparr>fX = 0x3F800000, fY = 0\<rparr>), fRadius = (0x3F800000, 0),
     fTileMode = kRepeat_TileMode, fGradientFlags = 1\<rparr>"

definition gradient0 :: "GradientType \<Rightarrow> TileMode \<Rightarrow> SkShader" where
  "gradient0 type tileMode = SkShader ((opaqueAnswers 30)
     \<lparr>asAGradient := type, gradientInfo := stops4\<lparr>fTileMode := tileMode\<rparr>\<rparr>) None"

definition paint0 :: "SkColor \<Rightarrow> SkPaint" where
  "paint0 c = \<lparr>fColor = c, fShader = Some flatBlack,
     fColorFilter = Some (SkColorFilter 40 (Some (0xFF000000, 3))),
     fDrawLooper = Some 50, fImageFilter = Some 60\<rparr>"

definition blackGradient :: SkShader where
  "blackGradient = SkShader ((opaqueAnswers 31)
     \<lparr>asAGradient := kLinear_GradientType,
      gradientInfo := stops4\<lparr>fColorCount := 2, fColors := [0xFF000000, 0],
        fColorOffsets := [0, 0x3F800000]\<rparr>\<rparr>) None"

definition colorGradientNotConstant :: SkShader where
  "colorGradientNotConstant = gradient0 kColor_GradientType kRepeat_TileMode"

section \<open>Basic facts\<close>

lemma obind_Returned: "obind (Returned v) k = k v"
  by (simp add: obind_def)

lemma obind_Halted: "obind (Halted f) k = Halted f"
  by (simp add: obind_def)

lemma apply_colors_eq:
  "n \<le> length srgb \<Longrightarrow> apply_colors X srgb n = Returned (map (pixel (fFromSRGB X)) (take n srgb))"
  by (simp add: apply_colors_def xform_apply_def SkAssertResult_def SkASSERT_def obind_Returned)

lemma apply_color_eq: "apply_color X c = Returned (pixel (fFromSRGB X) c)"
  by (simp add: apply_color_def apply_colors_eq obind_Returned)

section \<open>The dispatch of \<open>apply\<close> on shaders, branch by branch\<close>

text \<open>
  The first test, \<open>isConstant() && asLuminanceColor(&color)\<close>, fails when the shader is
  not constant or reports no luminance colour. Each lemma gives what \<open>apply\<close> computes
  once the earlier tests have failed.
\<close>

lemma apply_shader_flat:
  "isConstant a \<Longrightarrow> asLuminanceColor a = Some c \<Longrightarrow>
   apply_shader E X (SkShader a cmp) =
     arrow (MakeColorShader E (pixel (fFromSRGB X) c))
       (\<lambda>s. makeWithLocalMatrix E s (getLocalMatrix a))"
  by (simp add: apply_color_eq obind_Returned)

lemma apply_shader_image:
  "isConstant a \<longrightarrow> asLuminanceColor a = None \<Longrightarrow> isAImage a = Some (img, local, tx, ty) \<Longrightarrow>
   apply_shader E X (SkShader a cmp) =
     arrow (apply_image E X img) (\<lambda>im. makeShader E im tx ty local)"
  by (cases "isConstant a") simp_all

lemma apply_shader_leaf:
  "isConstant a \<longrightarrow> asLuminanceColor a = None \<Longrightarrow> isAImage a = None \<Longrightarrow>
   apply_shader E X (SkShader a None) = gradient_or_self E X (SkShader a None)"
  by (cases "isConstant a") simp_all

lemma apply_shader_compose:
  "isConstant a \<longrightarrow> asLuminanceColor a = None \<Longrightarrow> isAImage a = None \<Longrightarrow>
   apply_shader E X shaderA = Returned A \<Longrightarrow> apply_shader E X shaderB = Returned B \<Longrightarrow>
   apply_shader E X (SkShader a (Some (shaderA, shaderB, mode))) =
     (case (A, B) of
        (Some sa, Some sb) \<Rightarrow>
          arrow (MakeComposeShader E sa sb mode) (\<lambda>s. makeWithLocalMatrix E s (getLocalMatrix a))
      | _ \<Rightarrow> gradient_or_self E X (SkShader a (Some (shaderA, shaderB, mode))))"
  by (cases "isConstant a") simp_all

lemma gradient_or_self_none:
  "asAGradient (answers s) = kNone_GradientType \<Longrightarrow> gradient_or_self E X s = Returned (Some s)"
  by (simp add: gradient_or_self_def)

lemma gradient_or_self_gradient:
  "asAGradient (answers s) \<noteq> kNone_GradientType \<Longrightarrow>
   fColorCount (gradientInfo (answers s)) \<le> length (fColors (gradientInfo (answers s))) \<Longrightarrow>
   gradient_or_self E X s =
     gradient_switch E s (asAGradient (answers s)) (gradientInfo (answers s))
       (map (pixel (fFromSRGB X))
          (take (fColorCount (gradientInfo (answers s))) (fColors (gradientInfo (answers s)))))"
  by (simp add: gradient_or_self_def apply_colors_eq obind_Returned Let_def)

lemma apply_shader_compose_halts:
  "isConstant a \<longrightarrow> asLuminanceColor a = None \<Longrightarrow> isAImage a = None \<Longrightarrow>
   apply_shader E X shaderA = Halted f \<or>
     (apply_shader E X shaderA = Returned A \<and> apply_shader E X shaderB = Halted f) \<Longrightarrow>
   apply_shader E X (SkShader a (Some (shaderA, shaderB, mode))) = Halted f"
  by (cases "isConstant a") auto

lemma apply_shader_image_null:
  "isConstant a \<longrightarrow> asLuminanceColor a = None \<Longrightarrow> isAImage a = Some (img, local, tx, ty) \<Longrightarrow>
   apply_image E X img = None \<Longrightarrow>
   apply_shader E X (SkShader a cmp) = Halted NullDereference"
  by (simp add: apply_shader_image arrow_def del: apply_shader.simps)

lemma apply_shader_gradient_leaf:
  "isConstant a \<longrightarrow> asLuminanceColor a = None \<Longrightarrow> isAImage a = None \<Longrightarrow>
   asAGradient a \<noteq> kNone_GradientType \<Longrightarrow>
   fColorCount (gradientInfo a) \<le> length (fColors (gradientInfo a)) \<Longrightarrow>
   apply_shader E X (SkShader a None) =
     gradient_switch E (SkShader a None) (asAGradient a) (gradientInfo a)
       (map (pixel (fFromSRGB X)) (take (fColorCount (gradientInfo a)) (fColors (gradientInfo a))))"
  by (simp only: apply_shader_leaf) (simp add: gradient_or_self_gradient)

text \<open>
  Where the assertion of the gradient branch is reached and where it is not: a call
  through a smart pointer never ends in it, the four gradient kinds return from the
  \<open>switch\<close>, and the gradient query ends in it exactly for
  \<open>kColor_GradientType\<close>, given that the colours can be read.
\<close>

lemma arrow_not_assert: "arrow p m \<noteq> Halted AssertionFailed"
  by (simp add: arrow_def split: option.splits)

lemma gradient_switch_returns:
  "type \<noteq> kNone_GradientType \<Longrightarrow> type \<noteq> kColor_GradientType \<Longrightarrow>
   \<exists>r. gradient_switch E shader type gradient xformed = Returned r"
  by (cases type) (simp_all add: gradient_switch_def)

lemma gradient_or_self_not_assert:
  "asAGradient (answers s) \<noteq> kColor_GradientType \<Longrightarrow>
   gradient_or_self E X s \<noteq> Halted AssertionFailed"
proof (cases "asAGradient (answers s) = kNone_GradientType")
  case True
  then show ?thesis by (simp add: gradient_or_self_none)
next
  case False
  assume nc: "asAGradient (answers s) \<noteq> kColor_GradientType"
  let ?g = "gradientInfo (answers s)"
  show ?thesis
  proof (cases "fColorCount ?g \<le> length (fColors ?g)")
    case True
    with False nc show ?thesis
      using gradient_switch_returns [OF False nc, of E s ?g
          "map (pixel (fFromSRGB X)) (take (fColorCount ?g) (fColors ?g))"]
      by (auto simp: gradient_or_self_gradient)
  next
    case False
    then show ?thesis
      using \<open>asAGradient (answers s) \<noteq> kNone_GradientType\<close>
      by (simp add: gradient_or_self_def apply_colors_def obind_Halted Let_def)
  qed
qed

lemma gradient_or_self_color_asserts:
  "asAGradient (answers s) = kColor_GradientType \<Longrightarrow>
   fColorCount (gradientInfo (answers s)) \<le> length (fColors (gradientInfo (answers s))) \<Longrightarrow>
   gradient_or_self E X s = Halted AssertionFailed"
  by (simp add: gradient_or_self_gradient gradient_switch_def SkASSERT_def obind_Halted)

lemma color_gradient_not_constant_asserts:
  "isConstant a \<longrightarrow> asLuminanceColor a = None \<Longrightarrow> isAImage a = None \<Longrightarrow>
   asAGradient a = kColor_GradientType \<Longrightarrow>
   fColorCount (gradientInfo a) \<le> length (fColors (gradientInfo a)) \<Longrightarrow>
   apply_shader E X (SkShader a None) = Halted AssertionFailed"
  by (simp only: apply_shader_leaf)
    (simp add: gradient_or_self_gradient gradient_switch_def SkASSERT_def obind_Halted)

lemma contract_never_asserts:
  "honours_contract s \<Longrightarrow> apply_shader E X s \<noteq> Halted AssertionFailed"
proof (induction E X s rule: apply_shader.induct)
  case (1 E X a compose)
  show ?case
  proof (cases "isConstant a \<and> asLuminanceColor a \<noteq> None")
    case True
    then obtain c where "isConstant a" and "asLuminanceColor a = Some c" by auto
    then show ?thesis
      by (simp only: apply_shader_flat arrow_not_assert) simp
  next
    case nconst: False
    then have nc: "isConstant a \<longrightarrow> asLuminanceColor a = None" by auto
    have notcolor: "asAGradient a \<noteq> kColor_GradientType"
      using "1.prems" nconst by auto
    show ?thesis
    proof (cases "isAImage a")
      case (Some t)
      then obtain img local tx ty where "isAImage a = Some (img, local, tx, ty)"
        by (cases t) auto
      then show ?thesis
        by (simp only: apply_shader_image [OF nc] arrow_not_assert) simp
    next
      case noimg: None
      show ?thesis
      proof (cases compose)
        case None
        then show ?thesis
          using gradient_or_self_not_assert [of "SkShader a None" E X] notcolor
          by (simp only: apply_shader_leaf [OF nc noimg]) simp
      next
        case (Some t)
        then obtain shaderA shaderB mode where cmp: "compose = Some (shaderA, shaderB, mode)"
          by (cases t) auto
        have condnone: "(if isConstant a then asLuminanceColor a else None) = None"
          using nc by auto
        have hA: "honours_contract shaderA" and hB: "honours_contract shaderB"
          using "1.prems" cmp by auto
        have A: "apply_shader E X shaderA \<noteq> Halted AssertionFailed"
          using "1.IH"(1) [OF condnone noimg cmp] hA by auto
        show ?thesis
        proof (cases "apply_shader E X shaderA")
          case (Halted f)
          with A show ?thesis
            by (simp only: cmp apply_shader_compose_halts [OF nc noimg disjI1]) simp
        next
          case RA: (Returned rA)
          have B: "apply_shader E X shaderB \<noteq> Halted AssertionFailed"
            using "1.IH"(2) [OF condnone noimg cmp _ _ RA] hB by auto
          show ?thesis
          proof (cases "apply_shader E X shaderB")
            case (Halted f)
            with B RA show ?thesis
              by (simp only: cmp apply_shader_compose_halts [OF nc noimg disjI2, OF conjI]) simp
          next
            case RB: (Returned rB)
            show ?thesis
              using gradient_or_self_not_assert [of "SkShader a (Some (shaderA, shaderB, mode))" E X]
                notcolor
              by (simp only: cmp apply_shader_compose [OF nc noimg RA RB])
                (auto simp: arrow_not_assert split: option.splits)
          qed
        qed
      qed
    qed
  qed
qed

lemma apply_paint_eq:
  "apply_paint E X src =
     obind (case fShader src of None \<Rightarrow> Returned None | Some shader \<Rightarrow> apply_shader E X shader)
       (\<lambda>s. Returned (src
          \<lparr>fColor := (if fColor src AND 0xffffff \<noteq> 0 then pixel (fFromSRGB X) (fColor src)
                      else fColor src),
           fShader := s,
           fColorFilter :=
             (case fColorFilter src of
                None \<Rightarrow> None
              | Some cf \<Rightarrow>
                  (case asColorMode cf of
                     None \<Rightarrow> Some cf
                   | Some (color, mode) \<Rightarrow> MakeModeFilter E (pixel (fFromSRGB X) color) mode)),
           fDrawLooper :=
             (case fDrawLooper src of
                None \<Rightarrow> None
              | Some looper \<Rightarrow> looperMakeColorSpace E looper X)\<rparr>))"
proof (cases "case fShader src of None \<Rightarrow> Returned None | Some shader \<Rightarrow> apply_shader E X shader")
  case (Halted f)
  then show ?thesis
    by (simp add: apply_paint_def apply_color_eq obind_Returned obind_Halted
        split: option.splits)
next
  case (Returned s)
  then show ?thesis
    by (auto simp: apply_paint_def apply_color_eq obind_Returned split: option.splits)
qed

section \<open>Construction\<close>

text \<open>
  C8. \<open>Make\<close> returns no converter exactly when the transform from sRGB to the
  destination cannot be constructed; a converter that is returned holds the destination
  it was given and the transform that was constructed. No \<open>apply\<close> function returns
  a changed converter, so the destination stays what \<open>Make\<close> stored.
\<close>

theorem Make_none_iff_no_transform:
  "(Make E dst = None \<longleftrightarrow> New E (Some SRGB) dst kIgnore = None) \<and>
   (\<forall>X. Make E dst = Some X \<longrightarrow>
      fDst X = dst \<and> New E (Some SRGB) dst kIgnore = Some (fFromSRGB X))"
  by (auto simp: Make_def split: option.splits)

theorem Make_none_iff_no_transform_witness:
  "Make E0 None = None \<and> Make E0 (Some (ColorSpaceId 1)) = Some X0 \<and>
   fDst X0 = Some (ColorSpaceId 1) \<and>
   New E0 (Some SRGB) (Some (ColorSpaceId 1)) kIgnore = Some (fFromSRGB X0)"
  using Make_none_iff_no_transform [of E0 "Some (ColorSpaceId 1)"]
    Make_none_iff_no_transform [of E0 None]
  by (simp add: Make_def E0_def X0_def)

section \<open>Colours\<close>

text \<open>
  C7. The scalar conversion of a colour is the one element that the batch conversion of a
  one-element array produces, and the batch conversion of the first \<open>n\<close> colours of an
  array converts each of them as the scalar conversion does.
\<close>

theorem batch_agrees_with_scalar:
  "(\<exists>v. apply_colors X [c] 1 = Returned [v] \<and> apply_color X c = Returned v) \<and>
   (n \<le> length srgb \<longrightarrow>
      (\<exists>xformed. apply_colors X srgb n = Returned xformed \<and> length xformed = n \<and>
         (\<forall>i<n. apply_color X (srgb ! i) = Returned (xformed ! i))))"
  by (simp add: apply_colors_eq apply_color_eq)

theorem batch_agrees_with_scalar_witness:
  "apply_colors X0 [0xFFFF0000] 1 = Returned [0xFFFF0001] \<and>
   apply_color X0 0xFFFF0000 = Returned 0xFFFF0001 \<and>
   (3::nat) \<le> length [0xFFFF0000, 0xFF00FF00, 0xFF00FF00, 0xFF0000FF :: SkColor] \<and>
   apply_colors X0 [0xFFFF0000, 0xFF00FF00, 0xFF00FF00, 0xFF0000FF] 3 =
     Returned [0xFFFF0001, 0xFF00FF01, 0xFF00FF01] \<and>
   apply_color X0 0xFF00FF00 = Returned 0xFF00FF01"
  using batch_agrees_with_scalar [of X0 "0xFFFF0000" 3
      "[0xFFFF0000, 0xFF00FF00, 0xFF00FF00, 0xFF0000FF]"]
  by (simp add: apply_colors_eq apply_color_eq X0_def)

section \<open>Images\<close>

text \<open>
  C9, as amended. \<open>apply\<close> on a bitmap never returns the temporary image that wraps the
  bitmap's pixels without a copy: it returns null when no such image can be made,
  it stops at the assertion when \<open>makeColorSpace\<close> hands the temporary image back, and
  otherwise it returns what \<open>makeColorSpace\<close> returned. \<open>apply\<close> on an image returns
  what the image's \<open>makeColorSpace\<close> returns and compares nothing.
\<close>

theorem bitmap_result_is_not_the_wrapper:
  "(SkMakeImageFromRasterBitmap E src kNever_SkCopyPixelsMode = None \<longrightarrow>
      apply_bitmap E X src = Returned None) \<and>
   (\<forall>w. SkMakeImageFromRasterBitmap E src kNever_SkCopyPixelsMode = Some w \<longrightarrow>
      apply_bitmap E X src =
        (if makeColorSpace E w (fDst X) = Some w then Halted AssertionFailed
         else Returned (makeColorSpace E w (fDst X))) \<and>
      apply_bitmap E X src \<noteq> Returned (Some w)) \<and>
   apply_image E X img = makeColorSpace E img (fDst X)"
  by (auto simp: apply_bitmap_def apply_image_def SkASSERT_def obind_Returned obind_Halted
      Let_def)

theorem bitmap_result_is_not_the_wrapper_witness:
  "SkMakeImageFromRasterBitmap E0 0 kNever_SkCopyPixelsMode = None \<and>
   apply_bitmap E0 X0 0 = Returned None \<and>
   SkMakeImageFromRasterBitmap E0 1 kNever_SkCopyPixelsMode = Some 11 \<and>
   apply_bitmap E0 X0 1 = Returned (Some 111) \<and>
   SkMakeImageFromRasterBitmap E0 67 kNever_SkCopyPixelsMode = Some 77 \<and>
   makeColorSpace E0 77 (fDst X0) = Some 77 \<and>
   apply_bitmap E0 X0 67 = Halted AssertionFailed \<and>
   apply_image E0 X0 5 = Some 105"
  using bitmap_result_is_not_the_wrapper [of E0 0 X0 5]
    bitmap_result_is_not_the_wrapper [of E0 1 X0 5]
    bitmap_result_is_not_the_wrapper [of E0 67 X0 5]
  by (simp add: E0_def X0_def)

text \<open>
  The claim as it was stated fails on \<open>apply\<close> on an image: an image whose
  \<open>makeColorSpace\<close> returns the image itself comes back as the very same object.
\<close>

theorem image_returned_as_given_counterexample:
  "apply_image E0 X0 77 = Some 77"
  by (simp add: apply_image_def E0_def)

section \<open>Shaders\<close>

text \<open>
  C5. A shader that answers no to the constant-colour, image, compose and gradient
  queries is returned as it is: the same object, at the same address.
\<close>

theorem unrecognized_returns_same_reference:
  "isConstant a \<longrightarrow> asLuminanceColor a = None \<Longrightarrow> isAImage a = None \<Longrightarrow>
   asAGradient a = kNone_GradientType \<Longrightarrow>
   apply_shader E X (SkShader a None) = Returned (Some (SkShader a None))"
  by (simp add: apply_shader_leaf gradient_or_self_none)

theorem unrecognized_returns_same_reference_witness:
  "\<not> isConstant (answers opaque0) \<and> asLuminanceColor (answers opaque0) = None \<and>
   isAImage (answers opaque0) = None \<and> asACompose opaque0 = None \<and>
   asAGradient (answers opaque0) = kNone_GradientType \<and>
   apply_shader E0 X0 opaque0 = Returned (Some opaque0)"
  using unrecognized_returns_same_reference [of "opaqueAnswers 9" E0 X0]
  by (simp add: opaque0_def opaqueAnswers_def)

text \<open>
  C2. The image branch calls \<open>makeShader\<close> through the smart pointer that
  \<open>apply\<close> on the image returned, without a test. On the shader of image 66, which cannot
  be retargeted, the pointer is null and the call dereferences it; the same happens to a
  compose shader that has this shader as its second child.
\<close>

theorem image_retarget_failure_dereferences_null:
  "isAImage (answers (imageShader 7 66)) = Some (66, [], kRepeat_TileMode, kMirror_TileMode) \<and>
   apply_image E0 X0 66 = None \<and>
   apply_shader E0 X0 (imageShader 7 66) = Halted NullDereference \<and>
   apply_shader E0 X0 (SkShader (opaqueAnswers 23) (Some (imageShader 21 5, imageShader 7 66, 3))) =
     Halted NullDereference"
  by (simp add: imageShader_def opaqueAnswers_def apply_image_def E0_def X0_def arrow_def)

text \<open>
  C1, as amended. When a compose shader is neither constant nor image-backed, both
  children are converted without a fault and one of the two results is null, no
  compose shader is rebuilt: the conversion goes on to the gradient query, and for a
  shader that reports no gradient it returns the original shader itself, not null.
\<close>

theorem composite_child_failure_returns_original:
  assumes "isConstant a \<longrightarrow> asLuminanceColor a = None" and "isAImage a = None"
    and "apply_shader E X shaderA = Returned A" and "apply_shader E X shaderB = Returned B"
    and "A = None \<or> B = None"
  shows "apply_shader E X (SkShader a (Some (shaderA, shaderB, mode))) =
           gradient_or_self E X (SkShader a (Some (shaderA, shaderB, mode))) \<and>
         (asAGradient a = kNone_GradientType \<longrightarrow>
            apply_shader E X (SkShader a (Some (shaderA, shaderB, mode))) =
              Returned (Some (SkShader a (Some (shaderA, shaderB, mode)))))"
proof -
  let ?s = "SkShader a (Some (shaderA, shaderB, mode))"
  have "(case (A, B) of
           (Some sa, Some sb) \<Rightarrow>
             arrow (MakeComposeShader E sa sb mode) (\<lambda>s. makeWithLocalMatrix E s (getLocalMatrix a))
         | _ \<Rightarrow> gradient_or_self E X ?s) = gradient_or_self E X ?s"
    using assms(5) by (cases A; cases B) simp_all
  then have fall: "apply_shader E X ?s = gradient_or_self E X ?s"
    by (simp only: apply_shader_compose [OF assms(1-4)])
  have "asAGradient a = kNone_GradientType \<longrightarrow> gradient_or_self E X ?s = Returned (Some ?s)"
    by (simp add: gradient_or_self_none)
  with fall show ?thesis by (simp only: simp_thms)
qed

theorem composite_child_failure_returns_original_witness:
  "\<not> isConstant (opaqueAnswers 20) \<and> isAImage (opaqueAnswers 20) = None \<and>
   apply_shader E0 X0 (imageShader 21 5) =
     Returned (Some (SkShader ((opaqueAnswers 200)
       \<lparr>isAImage := Some (105, [], kRepeat_TileMode, kMirror_TileMode)\<rparr>) None)) \<and>
   apply_shader E0 X0 (imageShader 22 13) = Returned None \<and>
   asAGradient (opaqueAnswers 20) = kNone_GradientType \<and>
   apply_shader E0 X0 compose0 = gradient_or_self E0 X0 compose0 \<and>
   apply_shader E0 X0 compose0 = Returned (Some compose0)"
  using composite_child_failure_returns_original [of "opaqueAnswers 20" E0 X0
      "imageShader 21 5" "Some (SkShader ((opaqueAnswers 200)
         \<lparr>isAImage := Some (105, [], kRepeat_TileMode, kMirror_TileMode)\<rparr>) None)"
      "imageShader 22 13" None 3]
  by (simp add: compose0_def imageShader_def opaqueAnswers_def apply_image_def E0_def X0_def
      arrow_def gradient_or_self_def)

text \<open>
  The claim as it was stated fails on \<open>compose0\<close>: the conversion of its second child
  returns null (no shader can be made from the retargeted image 113), and the conversion
  of \<open>compose0\<close> returns \<open>compose0\<close>.
\<close>

theorem composite_child_failure_counterexample:
  "asACompose compose0 = Some (imageShader 21 5, imageShader 22 13, 3) \<and>
   apply_shader E0 X0 (imageShader 22 13) = Returned None \<and>
   apply_shader E0 X0 compose0 = Returned (Some compose0) \<and>
   apply_shader E0 X0 compose0 \<noteq> Returned None"
  by (simp add: compose0_def imageShader_def opaqueAnswers_def apply_image_def E0_def X0_def
      arrow_def gradient_or_self_def)

text \<open>
  C3, as amended. A shader that reaches the gradient query and reports a linear, radial,
  sweep or two-point conical gradient, with as many colours as its count says, is rebuilt
  by the builder of the same kind. The builder receives the points and radii of that kind,
  the offsets and the count as reported, the flags and the local matrix; the linear,
  radial and conical builders receive the tile mode, the sweep builder takes none. The
  colours it receives come from one batch conversion, and the colour at each index is the
  scalar conversion of the original colour at that index.
\<close>

theorem gradient_rebuilt_with_converted_stops:
  assumes "isConstant a \<longrightarrow> asLuminanceColor a = None" and "isAImage a = None"
    and "asAGradient a = type"
    and "type \<in> {kLinear_GradientType, kRadial_GradientType, kSweep_GradientType,
                  kConical_GradientType}"
    and "gradientInfo a = g" and "length (fColors g) = fColorCount g"
  shows "\<exists>xformed.
      apply_colors X (fColors g) (fColorCount g) = Returned xformed \<and>
      length xformed = fColorCount g \<and>
      (\<forall>i<fColorCount g. apply_color X (fColors g ! i) = Returned (xformed ! i)) \<and>
      (type = kLinear_GradientType \<longrightarrow>
         apply_shader E X (SkShader a None) =
           Returned (MakeLinear E (fPoint g) xformed (fColorOffsets g) (fColorCount g)
             (fTileMode g) (fGradientFlags g) (getLocalMatrix a))) \<and>
      (type = kRadial_GradientType \<longrightarrow>
         apply_shader E X (SkShader a None) =
           Returned (MakeRadial E (fst (fPoint g)) (fst (fRadius g)) xformed (fColorOffsets g)
             (fColorCount g) (fTileMode g) (fGradientFlags g) (getLocalMatrix a))) \<and>
      (type = kSweep_GradientType \<longrightarrow>
         apply_shader E X (SkShader a None) =
           Returned (MakeSweep E (fX (fst (fPoint g))) (fY (fst (fPoint g))) xformed
             (fColorOffsets g) (fColorCount g) (fGradientFlags g) (getLocalMatrix a))) \<and>
      (type = kConical_GradientType \<longrightarrow>
         apply_shader E X (SkShader a None) =
           Returned (MakeTwoPointConical E (fst (fPoint g)) (fst (fRadius g)) (snd (fPoint g))
             (snd (fRadius g)) xformed (fColorOffsets g) (fColorCount g) (fTileMode g)
             (fGradientFlags g) (getLocalMatrix a)))"
proof -
  let ?xs = "map (pixel (fFromSRGB X)) (fColors g)"
  have batch: "apply_colors X (fColors g) (fColorCount g) = Returned ?xs"
    using assms(6) by (simp add: apply_colors_eq)
  have each: "\<forall>i<fColorCount g. apply_color X (fColors g ! i) = Returned (?xs ! i)"
    using assms(6) by (simp add: apply_color_eq)
  have "type \<noteq> kNone_GradientType"
    using assms(4) by auto
  then have "gradient_or_self E X (SkShader a None) =
      gradient_switch E (SkShader a None) type g ?xs"
    using assms(3,5,6) by (simp add: gradient_or_self_gradient)
  then have run: "apply_shader E X (SkShader a None) =
      gradient_switch E (SkShader a None) type g ?xs"
    by (simp only: apply_shader_leaf [OF assms(1,2)])
  have len: "length ?xs = fColorCount g"
    using assms(6) by simp
  show ?thesis
  proof (intro exI [of _ ?xs] conjI impI)
    show "apply_colors X (fColors g) (fColorCount g) = Returned ?xs" by (rule batch)
    show "length ?xs = fColorCount g" by (rule len)
    show "\<forall>i<fColorCount g. apply_color X (fColors g ! i) = Returned (?xs ! i)" by (rule each)
  qed (simp_all add: run gradient_switch_def del: apply_shader.simps)
qed

theorem gradient_rebuilt_with_converted_stops_witness:
  "\<not> isConstant (answers (gradient0 kLinear_GradientType kRepeat_TileMode)) \<and>
   isAImage (answers (gradient0 kLinear_GradientType kRepeat_TileMode)) = None \<and>
   asAGradient (answers (gradient0 kLinear_GradientType kRepeat_TileMode)) = kLinear_GradientType \<and>
   gradientInfo (answers (gradient0 kLinear_GradientType kRepeat_TileMode)) = stops4 \<and>
   length (fColors stops4) = fColorCount stops4 \<and>
   apply_colors X0 (fColors stops4) (fColorCount stops4) =
     Returned [0xFFFF0001, 0xFF00FF01, 0xFF00FF01, 0xFF0000FE] \<and>
   apply_color X0 (fColors stops4 ! 3) = Returned 0xFF0000FE \<and>
   apply_shader E0 X0 (gradient0 kLinear_GradientType kRepeat_TileMode) =
     Returned (MakeLinear E0 (\<lparr>fX = 0, fY = 0\<rparr>, \<lparr>fX = 0x3F800000, fY = 0\<rparr>)
       [0xFFFF0001, 0xFF00FF01, 0xFF00FF01, 0xFF0000FE]
       [0, 0x3E99999A, 0x3E99999A, 0x3F800000] 4 kRepeat_TileMode 1 [])"
  using gradient_rebuilt_with_converted_stops [of
      "answers (gradient0 kLinear_GradientType kRepeat_TileMode)" kLinear_GradientType stops4 X0 E0]
  by (simp add: gradient0_def stops4_def opaqueAnswers_def apply_colors_eq apply_color_eq
      gradient_or_self_def gradient_switch_def obind_Returned X0_def)

text \<open>
  The claim as it was stated fails on sweep gradients: the tile mode is not passed to
  \<open>MakeSweep\<close>, so a sweep gradient that reports \<open>kRepeat_TileMode\<close> and one that
  reports \<open>kMirror_TileMode\<close> are rebuilt by the same call, whatever the builder does.
\<close>

lemma sweep_rebuild_ignores_tile_mode:
  "isConstant a \<longrightarrow> asLuminanceColor a = None \<Longrightarrow> isAImage a = None \<Longrightarrow>
   asAGradient a = kSweep_GradientType \<Longrightarrow>
   apply_shader E X (SkShader (a\<lparr>gradientInfo := (gradientInfo a)\<lparr>fTileMode := tileMode\<rparr>\<rparr>) None) =
   apply_shader E X (SkShader a None)"
  by (simp add: apply_shader_leaf gradient_or_self_def gradient_switch_def obind_def Let_def
      split: outcome.splits del: apply_shader.simps)

theorem sweep_tile_mode_counterexample:
  "asAGradient (answers (gradient0 kSweep_GradientType kRepeat_TileMode)) = kSweep_GradientType \<and>
   fTileMode (gradientInfo (answers (gradient0 kSweep_GradientType kRepeat_TileMode))) =
     kRepeat_TileMode \<and>
   fTileMode (gradientInfo (answers (gradient0 kSweep_GradientType kMirror_TileMode))) =
     kMirror_TileMode \<and>
   apply_shader E0 X0 (gradient0 kSweep_GradientType kRepeat_TileMode) =
     apply_shader E0 X0 (gradient0 kSweep_GradientType kMirror_TileMode) \<and>
   apply_shader E0 X0 (gradient0 kSweep_GradientType kRepeat_TileMode) =
     Returned (MakeSweep E0 0 0 [0xFFFF0001, 0xFF00FF01, 0xFF00FF01, 0xFF0000FE]
       [0, 0x3E99999A, 0x3E99999A, 0x3F800000] 4 1 []) \<and>
   MakeSweep E0 0 0 [0xFFFF0001, 0xFF00FF01, 0xFF00FF01, 0xFF0000FE]
       [0, 0x3E99999A, 0x3E99999A, 0x3F800000] 4 1 [] =
     builtGradient kSweep_GradientType (\<lparr>fX = 0, fY = 0\<rparr>, \<lparr>fX = 0, fY = 0\<rparr>) (0, 0)
       [0xFFFF0001, 0xFF00FF01, 0xFF00FF01, 0xFF0000FE]
       [0, 0x3E99999A, 0x3E99999A, 0x3F800000] 4 kClamp_TileMode 1 []"
  by (simp add: gradient0_def stops4_def opaqueAnswers_def apply_colors_eq
      gradient_or_self_def gradient_switch_def obind_Returned X0_def E0_def)

text \<open>
  C4. In the \<open>switch\<close> of the gradient branch, the types \<open>kNone_GradientType\<close> and
  \<open>kColor_GradientType\<close> end in the assertion, and so does the conversion of every
  shader that reaches the gradient query and reports \<open>kColor_GradientType\<close>: for a
  shader that composes nothing, \<open>apply\<close> stops at the assertion exactly when the shader
  reports \<open>kColor_GradientType\<close> and neither the constant-colour branch nor the image
  branch has returned before. A constant-colour shader never comes that far, a shader
  that reports \<open>kNone_GradientType\<close> does not enter the gradient branch, and the
  conversion of a shader that honours the contract never stops at the assertion.
\<close>

theorem unreachable_gradient_kinds_assert:
  "(type = kNone_GradientType \<or> type = kColor_GradientType \<longrightarrow>
      gradient_switch E shader type gradient xformed = Halted AssertionFailed) \<and>
   (asAGradient (answers s) = kColor_GradientType \<and>
    fColorCount (gradientInfo (answers s)) \<le> length (fColors (gradientInfo (answers s))) \<longrightarrow>
      gradient_or_self E X s = Halted AssertionFailed) \<and>
   (fColorCount (gradientInfo a) \<le> length (fColors (gradientInfo a)) \<longrightarrow>
      (apply_shader E X (SkShader a None) = Halted AssertionFailed \<longleftrightarrow>
         (isConstant a \<longrightarrow> asLuminanceColor a = None) \<and> isAImage a = None \<and>
         asAGradient a = kColor_GradientType)) \<and>
   (isConstant a \<and> asLuminanceColor a \<noteq> None \<longrightarrow>
      apply_shader E X (SkShader a cmp) \<noteq> Halted AssertionFailed) \<and>
   (asAGradient a = kNone_GradientType \<longrightarrow>
      gradient_or_self E X (SkShader a cmp) = Returned (Some (SkShader a cmp))) \<and>
   (honours_contract s \<longrightarrow> apply_shader E X s \<noteq> Halted AssertionFailed)"
proof (intro conjI impI)
  assume "type = kNone_GradientType \<or> type = kColor_GradientType"
  then show "gradient_switch E shader type gradient xformed = Halted AssertionFailed"
    by (auto simp: gradient_switch_def SkASSERT_def obind_Halted)
next
  assume "asAGradient (answers s) = kColor_GradientType \<and>
    fColorCount (gradientInfo (answers s)) \<le> length (fColors (gradientInfo (answers s)))"
  then show "gradient_or_self E X s = Halted AssertionFailed"
    by (simp add: gradient_or_self_color_asserts)
next
  assume len: "fColorCount (gradientInfo a) \<le> length (fColors (gradientInfo a))"
  show "apply_shader E X (SkShader a None) = Halted AssertionFailed \<longleftrightarrow>
         (isConstant a \<longrightarrow> asLuminanceColor a = None) \<and> isAImage a = None \<and>
         asAGradient a = kColor_GradientType"
  proof
    assume halts: "apply_shader E X (SkShader a None) = Halted AssertionFailed"
    have nc: "isConstant a \<longrightarrow> asLuminanceColor a = None"
    proof (rule ccontr)
      assume "\<not> (isConstant a \<longrightarrow> asLuminanceColor a = None)"
      then obtain c where "isConstant a" and "asLuminanceColor a = Some c" by auto
      then have "apply_shader E X (SkShader a None) \<noteq> Halted AssertionFailed"
        by (simp only: apply_shader_flat arrow_not_assert) simp
      with halts show False by simp
    qed
    have noimg: "isAImage a = None"
    proof (cases "isAImage a")
      case None
      then show ?thesis .
    next
      case (Some t)
      then obtain img local tx ty where "isAImage a = Some (img, local, tx, ty)"
        by (cases t) auto
      then have "apply_shader E X (SkShader a None) \<noteq> Halted AssertionFailed"
        by (simp only: apply_shader_image [OF nc] arrow_not_assert) simp
      with halts show ?thesis by simp
    qed
    have "asAGradient a = kColor_GradientType"
    proof (rule ccontr)
      assume "asAGradient a \<noteq> kColor_GradientType"
      then have "gradient_or_self E X (SkShader a None) \<noteq> Halted AssertionFailed"
        using gradient_or_self_not_assert [of "SkShader a None" E X] by simp
      with halts show False
        by (simp only: apply_shader_leaf [OF nc noimg])
    qed
    with nc noimg show "(isConstant a \<longrightarrow> asLuminanceColor a = None) \<and> isAImage a = None \<and>
         asAGradient a = kColor_GradientType" by simp
  next
    assume "(isConstant a \<longrightarrow> asLuminanceColor a = None) \<and> isAImage a = None \<and>
         asAGradient a = kColor_GradientType"
    with len show "apply_shader E X (SkShader a None) = Halted AssertionFailed"
      by (simp add: color_gradient_not_constant_asserts del: apply_shader.simps)
  qed
next
  assume "isConstant a \<and> asLuminanceColor a \<noteq> None"
  then obtain c where "isConstant a" and "asLuminanceColor a = Some c" by auto
  then show "apply_shader E X (SkShader a cmp) \<noteq> Halted AssertionFailed"
    by (simp only: apply_shader_flat) (simp add: arrow_def split: option.splits)
next
  assume "asAGradient a = kNone_GradientType"
  then show "gradient_or_self E X (SkShader a cmp) = Returned (Some (SkShader a cmp))"
    by (simp add: gradient_or_self_none)
next
  assume "honours_contract s"
  then show "apply_shader E X s \<noteq> Halted AssertionFailed"
    by (rule contract_never_asserts)
qed

theorem unreachable_gradient_kinds_assert_witness:
  "gradient_switch E0 opaque0 kNone_GradientType stops4 [] = Halted AssertionFailed \<and>
   gradient_switch E0 opaque0 kColor_GradientType stops4 [] = Halted AssertionFailed \<and>
   \<not> isConstant (answers colorGradientNotConstant) \<and>
   isAImage (answers colorGradientNotConstant) = None \<and>
   asACompose colorGradientNotConstant = None \<and>
   asAGradient (answers colorGradientNotConstant) = kColor_GradientType \<and>
   fColorCount (gradientInfo (answers colorGradientNotConstant)) \<le>
     length (fColors (gradientInfo (answers colorGradientNotConstant))) \<and>
   gradient_or_self E0 X0 colorGradientNotConstant = Halted AssertionFailed \<and>
   apply_shader E0 X0 colorGradientNotConstant = Halted AssertionFailed \<and>
   \<not> honours_contract colorGradientNotConstant \<and>
   isConstant (answers flatBlack) \<and> asLuminanceColor (answers flatBlack) \<noteq> None \<and>
   asAGradient (answers flatBlack) = kColor_GradientType \<and>
   honours_contract flatBlack \<and>
   apply_shader E0 X0 flatBlack \<noteq> Halted AssertionFailed \<and>
   asAGradient (answers opaque0) = kNone_GradientType \<and>
   gradient_or_self E0 X0 opaque0 = Returned (Some opaque0) \<and>
   honours_contract compose0 \<and> apply_shader E0 X0 compose0 \<noteq> Halted AssertionFailed"
  using unreachable_gradient_kinds_assert [of kNone_GradientType E0 opaque0 stops4 "[]"
      colorGradientNotConstant X0 "answers colorGradientNotConstant" None]
    unreachable_gradient_kinds_assert [of kColor_GradientType E0 opaque0 stops4 "[]"
      flatBlack X0 "answers flatBlack" None]
    unreachable_gradient_kinds_assert [of kColor_GradientType E0 opaque0 stops4 "[]"
      compose0 X0 "answers opaque0" None]
  by (simp add: colorGradientNotConstant_def gradient0_def stops4_def flatBlack_def opaque0_def
      compose0_def imageShader_def opaqueAnswers_def)

section \<open>Paints\<close>

text \<open>
  C6. In a paint that \<open>apply\<close> returns, the colour is the colour of the source when the
  low 24 bits of that colour (red, green and blue) are all zero, and the scalar conversion
  of it otherwise. \<open>apply\<close> on a paint returns unless the conversion of its shader
  stops the program.
\<close>

theorem paint_black_color_kept_else_converted:
  "(\<forall>dst. apply_paint E X src = Returned dst \<longrightarrow>
      (fColor src AND 0xffffff = 0 \<longrightarrow> fColor dst = fColor src) \<and>
      (fColor src AND 0xffffff \<noteq> 0 \<longrightarrow> apply_color X (fColor src) = Returned (fColor dst))) \<and>
   ((\<forall>shader f. fShader src = Some shader \<longrightarrow> apply_shader E X shader \<noteq> Halted f) \<longrightarrow>
      (\<exists>dst. apply_paint E X src = Returned dst))"
proof (intro conjI allI impI)
  fix dst
  assume "apply_paint E X src = Returned dst" and "fColor src AND 0xffffff = 0"
  then show "fColor dst = fColor src"
    by (cases "case fShader src of None \<Rightarrow> Returned None | Some shader \<Rightarrow> apply_shader E X shader")
      (auto simp: apply_paint_eq obind_Returned obind_Halted)
next
  fix dst
  assume "apply_paint E X src = Returned dst" and "fColor src AND 0xffffff \<noteq> 0"
  then show "apply_color X (fColor src) = Returned (fColor dst)"
    by (cases "case fShader src of None \<Rightarrow> Returned None | Some shader \<Rightarrow> apply_shader E X shader")
      (auto simp: apply_paint_eq apply_color_eq obind_Returned obind_Halted)
next
  assume "\<forall>shader f. fShader src = Some shader \<longrightarrow> apply_shader E X shader \<noteq> Halted f"
  then obtain s where
    "(case fShader src of None \<Rightarrow> Returned None | Some shader \<Rightarrow> apply_shader E X shader) = Returned s"
    by (cases "fShader src"; cases "apply_shader E X (the (fShader src))") auto
  then show "\<exists>dst. apply_paint E X src = Returned dst"
    by (simp add: apply_paint_eq obind_Returned)
qed

theorem paint_black_color_kept_else_converted_witness:
  "fColor (paint0 0xFF000000) AND 0xffffff = 0 \<and>
   apply_paint E0 X0 (paint0 0xFF000000) = Returned
     \<lparr>fColor = 0xFF000000,
      fShader = Some (SkShader ((opaqueAnswers 300)
        \<lparr>isConstant := True, asLuminanceColor := Some 0xFF000001,
         asAGradient := kColor_GradientType\<rparr>) None),
      fColorFilter = Some (SkColorFilter 600 (Some (0xFF000001, 3))),
      fDrawLooper = Some 1050, fImageFilter = Some 60\<rparr> \<and>
   fColor (paint0 0x00FF0000) AND 0xffffff \<noteq> 0 \<and>
   apply_color X0 0x00FF0000 = Returned 0x00FF0001 \<and>
   apply_paint E0 X0 (paint0 0x00FF0000) = Returned
     \<lparr>fColor = 0x00FF0001,
      fShader = Some (SkShader ((opaqueAnswers 300)
        \<lparr>isConstant := True, asLuminanceColor := Some 0xFF000001,
         asAGradient := kColor_GradientType\<rparr>) None),
      fColorFilter = Some (SkColorFilter 600 (Some (0xFF000001, 3))),
      fDrawLooper = Some 1050, fImageFilter = Some 60\<rparr>"
  using paint_black_color_kept_else_converted [of E0 X0 "paint0 0xFF000000"]
    paint_black_color_kept_else_converted [of E0 X0 "paint0 0x00FF0000"]
  by (simp add: apply_paint_eq apply_color_eq obind_Returned arrow_def paint0_def flatBlack_def
      opaqueAnswers_def E0_def X0_def)

text \<open>
  C10. Only the paint's own colour has the black test. The colour of a mode colour
  filter, the colour of a constant-colour shader and the colours of a gradient all go
  through the conversion, whatever their red, green and blue bits are: the filter is
  rebuilt from the converted colour, the constant-colour shader is rebuilt from the
  converted colour, and each gradient builder is called with the converted colours.
\<close>

theorem black_fast_path_only_for_paint_color:
  "(\<forall>dst cf color mode.
      apply_paint E X src = Returned dst \<and> fColorFilter src = Some cf \<and>
      asColorMode cf = Some (color, mode) \<longrightarrow>
      (\<exists>c. apply_color X color = Returned c \<and> fColorFilter dst = MakeModeFilter E c mode)) \<and>
   (\<forall>color. isConstant a \<and> asLuminanceColor a = Some color \<longrightarrow>
      (\<exists>c. apply_color X color = Returned c \<and>
         apply_shader E X (SkShader a cmp) =
           arrow (MakeColorShader E c) (\<lambda>s. makeWithLocalMatrix E s (getLocalMatrix a)))) \<and>
   (asAGradient (answers s) \<noteq> kNone_GradientType \<and>
    length (fColors (gradientInfo (answers s))) = fColorCount (gradientInfo (answers s)) \<longrightarrow>
      (\<exists>xformed.
         length xformed = fColorCount (gradientInfo (answers s)) \<and>
         (\<forall>i<fColorCount (gradientInfo (answers s)).
            apply_color X (fColors (gradientInfo (answers s)) ! i) = Returned (xformed ! i)) \<and>
         gradient_or_self E X s =
           gradient_switch E s (asAGradient (answers s)) (gradientInfo (answers s)) xformed)) \<and>
   ((isConstant b \<longrightarrow> asLuminanceColor b = None) \<and> isAImage b = None \<and>
    length (fColors (gradientInfo b)) = fColorCount (gradientInfo b) \<longrightarrow>
      (\<exists>xformed.
         length xformed = fColorCount (gradientInfo b) \<and>
         (\<forall>i<fColorCount (gradientInfo b).
            apply_color X (fColors (gradientInfo b) ! i) = Returned (xformed ! i)) \<and>
         (asAGradient b = kLinear_GradientType \<longrightarrow>
            apply_shader E X (SkShader b None) =
              Returned (MakeLinear E (fPoint (gradientInfo b)) xformed
                (fColorOffsets (gradientInfo b)) (fColorCount (gradientInfo b))
                (fTileMode (gradientInfo b)) (fGradientFlags (gradientInfo b))
                (getLocalMatrix b))) \<and>
         (asAGradient b = kRadial_GradientType \<longrightarrow>
            apply_shader E X (SkShader b None) =
              Returned (MakeRadial E (fst (fPoint (gradientInfo b))) (fst (fRadius (gradientInfo b)))
                xformed (fColorOffsets (gradientInfo b)) (fColorCount (gradientInfo b))
                (fTileMode (gradientInfo b)) (fGradientFlags (gradientInfo b))
                (getLocalMatrix b))) \<and>
         (asAGradient b = kSweep_GradientType \<longrightarrow>
            apply_shader E X (SkShader b None) =
              Returned (MakeSweep E (fX (fst (fPoint (gradientInfo b))))
                (fY (fst (fPoint (gradientInfo b)))) xformed (fColorOffsets (gradientInfo b))
                (fColorCount (gradientInfo b)) (fGradientFlags (gradientInfo b))
                (getLocalMatrix b))) \<and>
         (asAGradient b = kConical_GradientType \<longrightarrow>
            apply_shader E X (SkShader b None) =
              Returned (MakeTwoPointConical E (fst (fPoint (gradientInfo b)))
                (fst (fRadius (gradientInfo b))) (snd (fPoint (gradientInfo b)))
                (snd (fRadius (gradientInfo b))) xformed (fColorOffsets (gradientInfo b))
                (fColorCount (gradientInfo b)) (fTileMode (gradientInfo b))
                (fGradientFlags (gradientInfo b)) (getLocalMatrix b)))))"
proof (intro conjI allI impI)
  fix dst cf color mode
  assume "apply_paint E X src = Returned dst \<and> fColorFilter src = Some cf \<and>
      asColorMode cf = Some (color, mode)"
  then have "fColorFilter dst = MakeModeFilter E (pixel (fFromSRGB X) color) mode"
    by (cases "case fShader src of None \<Rightarrow> Returned None | Some shader \<Rightarrow> apply_shader E X shader")
      (auto simp: apply_paint_eq obind_Returned obind_Halted)
  then show "\<exists>c. apply_color X color = Returned c \<and> fColorFilter dst = MakeModeFilter E c mode"
    by (simp add: apply_color_eq)
next
  fix color
  assume "isConstant a \<and> asLuminanceColor a = Some color"
  then show "\<exists>c. apply_color X color = Returned c \<and>
         apply_shader E X (SkShader a cmp) =
           arrow (MakeColorShader E c) (\<lambda>s. makeWithLocalMatrix E s (getLocalMatrix a))"
    by (simp add: apply_color_eq apply_shader_flat del: apply_shader.simps)
next
  let ?g = "gradientInfo (answers s)"
  assume hyp: "asAGradient (answers s) \<noteq> kNone_GradientType \<and>
    length (fColors ?g) = fColorCount ?g"
  then have "gradient_or_self E X s =
      gradient_switch E s (asAGradient (answers s)) ?g (map (pixel (fFromSRGB X)) (fColors ?g))"
    by (simp add: gradient_or_self_gradient)
  with hyp show "\<exists>xformed.
         length xformed = fColorCount ?g \<and>
         (\<forall>i<fColorCount ?g. apply_color X (fColors ?g ! i) = Returned (xformed ! i)) \<and>
         gradient_or_self E X s =
           gradient_switch E s (asAGradient (answers s)) ?g xformed"
    by (intro exI [of _ "map (pixel (fFromSRGB X)) (fColors ?g)"]) (simp add: apply_color_eq)
next
  let ?g = "gradientInfo b"
  let ?xs = "map (pixel (fFromSRGB X)) (fColors ?g)"
  assume hyp: "(isConstant b \<longrightarrow> asLuminanceColor b = None) \<and> isAImage b = None \<and>
    length (fColors ?g) = fColorCount ?g"
  then have nc: "isConstant b \<longrightarrow> asLuminanceColor b = None" and noimg: "isAImage b = None"
    and len: "length (fColors ?g) = fColorCount ?g"
    by simp_all
  have run: "asAGradient b \<noteq> kNone_GradientType \<Longrightarrow>
      apply_shader E X (SkShader b None) = gradient_switch E (SkShader b None) (asAGradient b) ?g ?xs"
    using apply_shader_gradient_leaf [OF nc noimg, of E X] len by simp
  show "\<exists>xformed.
      length xformed = fColorCount ?g \<and>
      (\<forall>i<fColorCount ?g. apply_color X (fColors ?g ! i) = Returned (xformed ! i)) \<and>
      (asAGradient b = kLinear_GradientType \<longrightarrow>
         apply_shader E X (SkShader b None) =
           Returned (MakeLinear E (fPoint ?g) xformed (fColorOffsets ?g) (fColorCount ?g)
             (fTileMode ?g) (fGradientFlags ?g) (getLocalMatrix b))) \<and>
      (asAGradient b = kRadial_GradientType \<longrightarrow>
         apply_shader E X (SkShader b None) =
           Returned (MakeRadial E (fst (fPoint ?g)) (fst (fRadius ?g)) xformed (fColorOffsets ?g)
             (fColorCount ?g) (fTileMode ?g) (fGradientFlags ?g) (getLocalMatrix b))) \<and>
      (asAGradient b = kSweep_GradientType \<longrightarrow>
         apply_shader E X (SkShader b None) =
           Returned (MakeSweep E (fX (fst (fPoint ?g))) (fY (fst (fPoint ?g))) xformed
             (fColorOffsets ?g) (fColorCount ?g) (fGradientFlags ?g) (getLocalMatrix b))) \<and>
      (asAGradient b = kConical_GradientType \<longrightarrow>
         apply_shader E X (SkShader b None) =
           Returned (MakeTwoPointConical E (fst (fPoint ?g)) (fst (fRadius ?g)) (snd (fPoint ?g))
             (snd (fRadius ?g)) xformed (fColorOffsets ?g) (fColorCount ?g) (fTileMode ?g)
             (fGradientFlags ?g) (getLocalMatrix b)))"
  proof (intro exI [of _ ?xs] conjI impI)
    show "length ?xs = fColorCount ?g" using len by simp
    show "\<forall>i<fColorCount ?g. apply_color X (fColors ?g ! i) = Returned (?xs ! i)"
      using len by (simp add: apply_color_eq)
  qed (simp_all add: run gradient_switch_def del: apply_shader.simps)
qed

theorem black_fast_path_only_for_paint_color_witness:
  "fColorFilter (paint0 0xFF000000) = Some (SkColorFilter 40 (Some (0xFF000000, 3))) \<and>
   (0xFF000000 :: SkColor) AND 0xffffff = 0 \<and>
   apply_color X0 0xFF000000 = Returned 0xFF000001 \<and>
   (case apply_paint E0 X0 (paint0 0xFF000000) of
      Returned dst \<Rightarrow> fColorFilter dst = MakeModeFilter E0 0xFF000001 3
    | Halted f \<Rightarrow> False) \<and>
   isConstant (answers flatBlack) \<and> asLuminanceColor (answers flatBlack) = Some 0xFF000000 \<and>
   apply_shader E0 X0 flatBlack =
     arrow (MakeColorShader E0 0xFF000001) (\<lambda>s. makeWithLocalMatrix E0 s []) \<and>
   asAGradient (answers blackGradient) \<noteq> kNone_GradientType \<and>
   fColors (gradientInfo (answers blackGradient)) = [0xFF000000, 0] \<and>
   gradient_or_self E0 X0 blackGradient =
     gradient_switch E0 blackGradient kLinear_GradientType (gradientInfo (answers blackGradient))
       [0xFF000001, 1] \<and>
   \<not> isConstant (answers blackGradient) \<and> isAImage (answers blackGradient) = None \<and>
   asACompose blackGradient = None \<and>
   asAGradient (answers blackGradient) = kLinear_GradientType \<and>
   apply_color X0 0 = Returned 1 \<and>
   apply_shader E0 X0 blackGradient =
     Returned (MakeLinear E0 (\<lparr>fX = 0, fY = 0\<rparr>, \<lparr>fX = 0x3F800000, fY = 0\<rparr>)
       [0xFF000001, 1] [0, 0x3F800000] 2 kRepeat_TileMode 1 []) \<and>
   apply_shader E0 X0 blackGradient \<noteq> Returned (Some blackGradient)"
  using black_fast_path_only_for_paint_color [of E0 X0 "paint0 0xFF000000" "answers flatBlack"
      None blackGradient "answers blackGradient"]
  by (simp add: apply_paint_eq apply_color_eq apply_colors_eq obind_Returned arrow_def
      paint0_def flatBlack_def blackGradient_def stops4_def opaqueAnswers_def
      gradient_or_self_def gradient_switch_def builtGradient_def Let_def E0_def X0_def)

end
